theory Spec2Isabelle
  imports Main
begin

section \<open>The Python values that SimpleCAS handles\<close>

text \<open>
  CAS.py is dynamically typed: \<open>Node.val\<close> is annotated \<open>Any\<close>, the constructors test
  their arguments with \<open>isinstance\<close> at run time, and \<open>Expression._op\<close> accepts any
  operand. The embedding therefore works over one universe \<open>pyval\<close> of Python values, and
  every \<open>raise\<close> of the source is the \<open>Inl\<close> branch of a result \<open>pyexc + 'a\<close>.

  A Python \<open>str\<close> is a sequence of Unicode code points, so it is a list of naturals here
  (\<open>ord\<close> and \<open>chr\<close> are then the identity on one element); \<open>lit\<close> turns an ASCII
  literal into that form.
\<close>

type_synonym pystr = "nat list"

definition lit :: "string \<Rightarrow> pystr" where
  "lit s = map of_char s"

text \<open>\<open>class Operator(Enum)\<close>: four members, whose values are code points.\<close>

datatype Operator = Operator_add | Operator_sub | Operator_mul | Operator_div

fun Operator_value :: "Operator \<Rightarrow> nat" where
  "Operator_value Operator_add = 0x2B"
| "Operator_value Operator_sub = 0x2D"
| "Operator_value Operator_mul = 0xD7"
| "Operator_value Operator_div = 0xF7"

text \<open>\<open>Operator.__str__\<close>: \<open>chr(self.value)\<close>, a string of one code point.\<close>

definition Operator_str :: "Operator \<Rightarrow> pystr" where
  "Operator_str op = [Operator_value op]"

text \<open>The five classes of the module; each of the last four inherits from \<open>Node\<close>.\<close>

datatype pyclass =
  Node_cls | Expression_cls | CompoundExpression_cls | SymbolicVar_cls | SymbolicNum_cls

text \<open>
  An object of one of these classes is \<open>PyObject cls val left right\<close>: its class and the
  three attributes that \<open>Node.__init__\<close> sets. An object is modelled by its value, so
  two structurally equal trees are equal here, whatever their identity in Python.
\<close>

datatype pyval =
    PyNone
  | PyNotImplemented
  | PyBool bool
  | PyInt int
  | PyStr pystr
  | PyList "pyval list"
  | PyOperator Operator
  | PyObject pyclass pyval pyval pyval

datatype pyexc = TypeError pystr | ValueError pystr | AttributeError pystr

subsection \<open>Built-ins used by the module\<close>

fun class_name :: "pyclass \<Rightarrow> pystr" where
  "class_name Node_cls = lit ''Node''"
| "class_name Expression_cls = lit ''Expression''"
| "class_name CompoundExpression_cls = lit ''CompoundExpression''"
| "class_name SymbolicVar_cls = lit ''SymbolicVar''"
| "class_name SymbolicNum_cls = lit ''SymbolicNum''"

fun type_name :: "pyval \<Rightarrow> pystr" where
  "type_name PyNone = lit ''NoneType''"
| "type_name PyNotImplemented = lit ''NotImplementedType''"
| "type_name (PyBool b) = lit ''bool''"
| "type_name (PyInt n) = lit ''int''"
| "type_name (PyStr s) = lit ''str''"
| "type_name (PyList xs) = lit ''list''"
| "type_name (PyOperator op) = lit ''Operator''"
| "type_name (PyObject c v l r) = class_name c"

text \<open>\<open>str(n)\<close> for an \<open>int\<close>: its decimal digits, after a minus sign when negative.\<close>

fun nat_str :: "nat \<Rightarrow> pystr" where
  "nat_str n = (if n < 10 then [48 + n] else nat_str (n div 10) @ [48 + n mod 10])"

declare nat_str.simps [simp del]

definition int_str :: "int \<Rightarrow> pystr" where
  "int_str i = (if i < 0 then 45 # nat_str (nat (- i)) else nat_str (nat i))"

text \<open>The number a string of decimal digits denotes, to say what \<open>nat_str\<close> is right about.\<close>

definition decimal_value :: "pystr \<Rightarrow> nat" where
  "decimal_value ds = foldl (\<lambda>a d. 10 * a + (d - 48)) 0 ds"

text \<open>
  \<open>len(x)\<close>: defined on strings and lists; on every other value of the universe it
  raises \<open>TypeError\<close>.
\<close>

fun py_len :: "pyval \<Rightarrow> pyexc + nat" where
  "py_len (PyStr s) = Inr (length s)"
| "py_len (PyList xs) = Inr (length xs)"
| "py_len x = Inl (TypeError (lit ''object of type '' @ [39] @ type_name x @ [39] @ lit '' has no len()''))"

text \<open>\<open>ord(x)\<close>: the code point of a string of length one.\<close>

fun py_ord :: "pyval \<Rightarrow> pyexc + nat" where
  "py_ord (PyStr [c]) = Inr c"
| "py_ord (PyStr s) =
     Inl (TypeError (lit ''ord() expected a character, but string of length ''
                     @ nat_str (length s) @ lit '' found''))"
| "py_ord x =
     Inl (TypeError (lit ''ord() expected string of length 1, but '' @ type_name x @ lit '' found''))"

fun isinstance_str :: "pyval \<Rightarrow> bool" where
  "isinstance_str (PyStr s) = True"
| "isinstance_str x = False"

text \<open>
  \<open>bool\<close> is a subclass of \<open>int\<close>: \<open>isinstance(True, int)\<close> holds and \<open>True\<close>
  compares as 1. \<open>int_of\<close> gives the integer an instance of \<open>int\<close> compares as.
\<close>

fun int_of :: "pyval \<Rightarrow> int option" where
  "int_of (PyInt n) = Some n"
| "int_of (PyBool b) = Some (if b then 1 else 0)"
| "int_of x = None"

definition isinstance_int :: "pyval \<Rightarrow> bool" where
  "isinstance_int x = (int_of x \<noteq> None)"

fun isinstance_Expression :: "pyval \<Rightarrow> bool" where
  "isinstance_Expression (PyObject c v l r) = (c \<noteq> Node_cls)"
| "isinstance_Expression x = False"

section \<open>Node\<close>

text \<open>
  \<open>Node.__init__(self, val, left=None, right=None)\<close> stores its three arguments. The
  subclasses reach it through \<open>super().__init__\<close>, so the class of the object being
  initialised is a parameter.
\<close>

definition Node_init :: "pyclass \<Rightarrow> pyval \<Rightarrow> pyval \<Rightarrow> pyval \<Rightarrow> pyval" where
  "Node_init cls val left right = PyObject cls val left right"

text \<open>\<open>Node(val)\<close>, with both children left at their default \<open>None\<close>.\<close>

definition Node :: "pyval \<Rightarrow> pyval" where
  "Node val = Node_init Node_cls val PyNone PyNone"

section \<open>Rendering\<close>

text \<open>
  \<open>str(x)\<close>. On an instance of \<open>Node\<close> itself it is \<open>Node.__str__\<close>, which is
  \<open>str(self.val)\<close>; on an instance of \<open>Expression\<close> or of a subclass it is
  \<open>Expression.__str__\<close>:
  \<^verbatim>\<open>
    left = str(self.left) if self.left is not None else ""
    right = str(self.right) if self.right is not None else ""
    if left == "" and right == "":
        return str(self.val)
    else:
        return "(" + left + " " + str(self.val) + " " + right + ")"
  \<close>
  The text of a list is made of the \<open>repr\<close> of its elements, which this model does not
  cover; \<open>py_str\<close> is \<open>None\<close> there, and nowhere else.
\<close>

fun py_str :: "pyval \<Rightarrow> pystr option" where
  "py_str PyNone = Some (lit ''None'')"
| "py_str PyNotImplemented = Some (lit ''NotImplemented'')"
| "py_str (PyBool b) = Some (if b then lit ''True'' else lit ''False'')"
| "py_str (PyInt n) = Some (int_str n)"
| "py_str (PyStr s) = Some s"
| "py_str (PyList xs) = None"
| "py_str (PyOperator op) = Some (Operator_str op)"
| "py_str (PyObject c v l r) =
     (if c = Node_cls then py_str v
      else
        (case (if l \<noteq> PyNone then py_str l else Some []) of
           None \<Rightarrow> None
         | Some left \<Rightarrow>
            (case (if r \<noteq> PyNone then py_str r else Some []) of
               None \<Rightarrow> None
             | Some right \<Rightarrow>
                if left = [] \<and> right = [] then py_str v
                else
                  (case py_str v of
                     None \<Rightarrow> None
                   | Some s \<Rightarrow> Some (lit ''('' @ left @ lit '' '' @ s @ lit '' '' @ right @ lit '')'')))))"

section \<open>The leaf constructors\<close>

definition InvalidSymbol :: pyexc where
  "InvalidSymbol = ValueError (lit ''Symbol name must be an upper or lower-case string of length 1.'')"

definition InvalidConstant :: pyexc where
  "InvalidConstant = ValueError (lit ''Constant must be a non-negative integer.'')"

text \<open>
  \<open>SymbolicVar.__init__\<close>:
  \<^verbatim>\<open>
    if (len(name) == 1
            and isinstance(name, str)
            and ((97 <= ord(name) <= 122) or (65 <= ord(name) <= 90))):
        super().__init__(Node(name))
    else:
        raise ValueError("Symbol name must be an upper or lower-case "
            "string of length 1.")
  \<close>
  \<open>len(name)\<close> is evaluated first and may itself raise; \<open>and\<close> evaluates \<open>ord(name)\<close>
  only when the two tests before it hold.
\<close>

definition SymbolicVar :: "pyval \<Rightarrow> pyexc + pyval" where
  "SymbolicVar name =
     (case py_len name of
        Inl e \<Rightarrow> Inl e
      | Inr n \<Rightarrow>
         if n = 1 \<and> isinstance_str name then
           (case py_ord name of
              Inl e \<Rightarrow> Inl e
            | Inr c \<Rightarrow>
               if (97 \<le> c \<and> c \<le> 122) \<or> (65 \<le> c \<and> c \<le> 90)
               then Inr (Node_init SymbolicVar_cls (Node name) PyNone PyNone)
               else Inl InvalidSymbol)
         else Inl InvalidSymbol)"

text \<open>
  \<open>SymbolicNum.__init__\<close>:
  \<^verbatim>\<open>
    if isinstance(val, int) and 0 <= val:
        super().__init__(Node(val))
    else:
        raise ValueError("Constant must be a non-negative integer.")
  \<close>
\<close>

definition SymbolicNum :: "pyval \<Rightarrow> pyexc + pyval" where
  "SymbolicNum val =
     (case int_of val of
        None \<Rightarrow> Inl InvalidConstant
      | Some i \<Rightarrow>
         if 0 \<le> i then Inr (Node_init SymbolicNum_cls (Node val) PyNone PyNone)
         else Inl InvalidConstant)"

section \<open>CompoundExpression and the operator methods\<close>

text \<open>
  \<open>CompoundExpression.__init__(self, op, left, right)\<close> checks the two children and
  nothing else (\<open>op\<close> is stored as it comes):
  \<^verbatim>\<open>
    if (not isinstance(left, Expression)
            or not isinstance(right, Expression)):
        raise TypeError("'left' and 'right' must be of type Expression.")
    super().__init__(op, left, right)
  \<close>
\<close>

definition TypeMismatch :: pyexc where
  "TypeMismatch = TypeError ([39] @ lit ''left'' @ [39] @ lit '' and '' @ [39] @ lit ''right'' @ [39]
                             @ lit '' must be of type Expression.'')"

definition CompoundExpression :: "pyval \<Rightarrow> pyval \<Rightarrow> pyval \<Rightarrow> pyexc + pyval" where
  "CompoundExpression op left right =
     (if \<not> isinstance_Expression left \<or> \<not> isinstance_Expression right
      then Inl TypeMismatch
      else Inr (Node_init CompoundExpression_cls op left right))"

text \<open>
  \<open>Expression._op(self, other, op, right=False)\<close>. The argument \<open>SymbolicNum(other)\<close>
  is evaluated before \<open>CompoundExpression\<close> is called, so its \<open>ValueError\<close> comes first.
  \<^verbatim>\<open>
    if isinstance(other, int):
        if not right:
            return CompoundExpression(op, self, SymbolicNum(other))
        else:
            return CompoundExpression(op, SymbolicNum(other), self)
    elif isinstance(other, Expression):
        if not right:
            return CompoundExpression(op, self, other)
        else:
            return CompoundExpression(op, other, self)
    else:
        return NotImplemented
  \<close>
\<close>

definition Expression_op :: "pyval \<Rightarrow> pyval \<Rightarrow> pyval \<Rightarrow> bool \<Rightarrow> pyexc + pyval" where
  "Expression_op self other op right =
     (if isinstance_int other then
        (if \<not> right then
           (case SymbolicNum other of
              Inl e \<Rightarrow> Inl e
            | Inr num \<Rightarrow> CompoundExpression op self num)
         else
           (case SymbolicNum other of
              Inl e \<Rightarrow> Inl e
            | Inr num \<Rightarrow> CompoundExpression op num self))
      else if isinstance_Expression other then
        (if \<not> right then CompoundExpression op self other
         else CompoundExpression op other self)
      else Inr PyNotImplemented)"

text \<open>
  \<open>SymbolicNum._op\<close> overrides \<open>Expression._op\<close> with a body that is only \<open>pass\<close>: it
  returns \<open>None\<close>.
\<close>

definition SymbolicNum_op :: "pyval \<Rightarrow> pyval \<Rightarrow> pyval \<Rightarrow> bool \<Rightarrow> pyexc + pyval" where
  "SymbolicNum_op self other op right = Inr PyNone"

definition no_attribute :: "pyval \<Rightarrow> string \<Rightarrow> pyexc" where
  "no_attribute x a =
     AttributeError ([39] @ type_name x @ [39] @ lit '' object has no attribute '' @ [39] @ lit a @ [39])"

text \<open>
  The call \<open>self._op(other, op, right)\<close>: the method is looked up in the class of
  \<open>self\<close>. \<open>SymbolicNum\<close> has its own; \<open>SymbolicVar\<close> and \<open>CompoundExpression\<close>
  inherit the one of \<open>Expression\<close>; \<open>Node\<close> and the built-in types have none.
\<close>

fun call_op :: "pyval \<Rightarrow> pyval \<Rightarrow> pyval \<Rightarrow> bool \<Rightarrow> pyexc + pyval" where
  "call_op (PyObject c v l r) other op right =
     (if c = SymbolicNum_cls then SymbolicNum_op (PyObject c v l r) other op right
      else if c = Node_cls then Inl (no_attribute (PyObject c v l r) ''_op'')
      else Expression_op (PyObject c v l r) other op right)"
| "call_op x other op right = Inl (no_attribute x ''_op'')"

text \<open>
  The eight operator methods of \<open>Expression\<close>. In \<open>A + B\<close> Python calls
  \<open>A.__add__(B)\<close>; when \<open>A\<close> is an \<open>int\<close> that call returns \<open>NotImplemented\<close> for an
  \<open>Expression B\<close>, and Python then calls \<open>B.__radd__(A)\<close>.
\<close>

definition Expression_add :: "pyval \<Rightarrow> pyval \<Rightarrow> pyexc + pyval" where
  "Expression_add self other = call_op self other (PyOperator Operator_add) False"


definition Expression_sub :: "pyval \<Rightarrow> pyval \<Rightarrow> pyexc + pyval" where
  "Expression_sub self other = call_op self other (PyOperator Operator_sub) False"


definition Expression_mul :: "pyval \<Rightarrow> pyval \<Rightarrow> pyexc + pyval" where
  "Expression_mul self other = call_op self other (PyOperator Operator_mul) False"

definition Expression_rmul :: "pyval \<Rightarrow> pyval \<Rightarrow> pyexc + pyval" where
  "Expression_rmul self other = call_op self other (PyOperator Operator_mul) True"

definition Expression_truediv :: "pyval \<Rightarrow> pyval \<Rightarrow> pyexc + pyval" where
  "Expression_truediv self other = call_op self other (PyOperator Operator_div) False"


section \<open>The stubs and commute\<close>

text \<open>
  \<open>Expression.__eq__\<close>, \<open>CompoundExpression.assoc_right\<close>, \<open>assoc_left\<close> and
  \<open>SymbolicVar.specialize\<close> have the body \<open>pass\<close>: they return \<open>None\<close> and touch
  nothing. A method that may change \<open>self\<close> returns the pair of its return value and of
  \<open>self\<close> afterwards.
\<close>

definition Expression_eq :: "pyval \<Rightarrow> pyval \<Rightarrow> pyval" where
  "Expression_eq self other = PyNone"

definition assoc_right :: "pyval \<Rightarrow> pyval \<times> pyval" where
  "assoc_right self = (PyNone, self)"

definition assoc_left :: "pyval \<Rightarrow> pyval \<times> pyval" where
  "assoc_left self = (PyNone, self)"

definition specialize :: "pyval \<Rightarrow> pyval \<Rightarrow> pyval \<times> pyval" where
  "specialize self val = (PyNone, self)"

text \<open>
  \<open>CompoundExpression.commute\<close>: \<open>self.left, self.right = self.right, self.left\<close>, in
  place, returning \<open>None\<close>. A value that is not an object has no attribute \<open>right\<close>,
  the first one read.
\<close>

fun commute :: "pyval \<Rightarrow> pyexc + pyval \<times> pyval" where
  "commute (PyObject c v l r) = Inr (PyNone, PyObject c v r l)"
| "commute x = Inl (no_attribute x ''right'')"

fun isinstance_CompoundExpression :: "pyval \<Rightarrow> bool" where
  "isinstance_CompoundExpression (PyObject c v l r) = (c = CompoundExpression_cls)"
| "isinstance_CompoundExpression x = False"

fun isinstance_SymbolicNum :: "pyval \<Rightarrow> bool" where
  "isinstance_SymbolicNum (PyObject c v l r) = (c = SymbolicNum_cls)"
| "isinstance_SymbolicNum x = False"

text \<open>Reading the attributes \<open>x.val\<close>, \<open>x.left\<close> and \<open>x.right\<close>.\<close>

fun attr_val :: "pyval \<Rightarrow> pyexc + pyval" where
  "attr_val (PyObject c v l r) = Inr v"
| "attr_val x = Inl (no_attribute x ''val'')"

fun attr_left :: "pyval \<Rightarrow> pyexc + pyval" where
  "attr_left (PyObject c v l r) = Inr l"
| "attr_left x = Inl (no_attribute x ''left'')"

fun attr_right :: "pyval \<Rightarrow> pyexc + pyval" where
  "attr_right (PyObject c v l r) = Inr r"
| "attr_right x = Inl (no_attribute x ''right'')"

text \<open>
  The method behind each infix operator: \<open>self + other\<close> is \<open>self.__add__(other)\<close>,
  and so on for \<open>-\<close>, \<open>*\<close> and \<open>/\<close>; \<open>reflected\<close> is the method Python calls on
  the right-hand operand (\<open>__radd__\<close>, \<open>__rsub__\<close>, \<open>__rmul__\<close>, \<open>__rtruediv__\<close>).
\<close>

fun combinator :: "Operator \<Rightarrow> pyval \<Rightarrow> pyval \<Rightarrow> pyexc + pyval" where
  "combinator Operator_add = Expression_add"
| "combinator Operator_sub = Expression_sub"
| "combinator Operator_mul = Expression_mul"
| "combinator Operator_div = Expression_truediv"


section \<open>The expressions the constructors build\<close>

text \<open>
  The three variants of the data model, as a test on a value: a leaf is what
  \<open>SymbolicVar\<close> or \<open>SymbolicNum\<close> returns on the raw value found in its wrapper
  node, and a compound is what \<open>CompoundExpression\<close> returns on an \<open>Operator\<close> and
  two expressions that pass the test themselves.
\<close>

fun built :: "pyval \<Rightarrow> bool" where
  "built (PyObject c v l r) =
     (if c = SymbolicVar_cls then
        (case v of
           PyObject c' name l' r' \<Rightarrow> SymbolicVar name = Inr (PyObject c v l r)
         | _ \<Rightarrow> False)
      else if c = SymbolicNum_cls then
        (case v of
           PyObject c' val l' r' \<Rightarrow> SymbolicNum val = Inr (PyObject c v l r)
         | _ \<Rightarrow> False)
      else if c = CompoundExpression_cls then
        (case v of
           PyOperator op \<Rightarrow>
             built l \<and> built r \<and> CompoundExpression v l r = Inr (PyObject c v l r)
         | _ \<Rightarrow> False)
      else False)"
| "built x = False"

section \<open>Facts about the built-ins\<close>

lemma nat_str_not_Nil: "nat_str n \<noteq> []"
  by (subst nat_str.simps) simp

lemma nat_str_digits: "set (nat_str n) \<subseteq> {48..57}"
proof (induction n rule: nat_str.induct)
  case (1 n)
  show ?case
  proof (cases "n < 10")
    case True
    then show ?thesis by (subst nat_str.simps) simp
  next
    case False
    have "n mod 10 < 10" by simp
    then have "48 + n mod 10 \<in> {48..57}" by auto
    with False 1 show ?thesis by (subst nat_str.simps) simp
  qed
qed

lemma decimal_value_snoc: "decimal_value (ds @ [d]) = 10 * decimal_value ds + (d - 48)"
  by (simp add: decimal_value_def)

lemma decimal_value_nat_str: "decimal_value (nat_str n) = n"
proof (induction n rule: nat_str.induct)
  case (1 n)
  show ?case
  proof (cases "n < 10")
    case True
    then show ?thesis by (subst nat_str.simps) (simp add: decimal_value_def)
  next
    case False
    with 1 have "decimal_value (nat_str (n div 10)) = n div 10" by simp
    with False show ?thesis
      by (subst nat_str.simps) (simp add: decimal_value_snoc)
  qed
qed

lemma nat_str_leading: "hd (nat_str n) = 48 \<Longrightarrow> n = 0"
proof (induction n rule: nat_str.induct)
  case (1 n)
  show ?case
  proof (cases "n < 10")
    case True
    with "1.prems" show ?thesis by (subst (asm) nat_str.simps) simp
  next
    case False
    with "1.prems" have "hd (nat_str (n div 10)) = 48"
      by (subst (asm) nat_str.simps) (simp add: nat_str_not_Nil)
    with False 1 have "n div 10 = 0" by simp
    with False show ?thesis by simp
  qed
qed

lemma nat_str_zero: "hd (nat_str n) = 48 \<Longrightarrow> nat_str n = [48]"
  using nat_str_leading [of n] by (auto simp: nat_str.simps)

text \<open>A leaf renders as the value inside its wrapper node.\<close>

lemma py_str_leaf: "py_str (Node_init c (Node v) PyNone PyNone) = py_str v"
  by (simp add: Node_init_def Node_def split: option.splits)

lemma SymbolicVar_PyStr:
  "SymbolicVar (PyStr s) =
     (if length s = 1 \<and> ((97 \<le> hd s \<and> hd s \<le> 122) \<or> (65 \<le> hd s \<and> hd s \<le> 90))
      then Inr (PyObject SymbolicVar_cls (PyObject Node_cls (PyStr s) PyNone PyNone) PyNone PyNone)
      else Inl InvalidSymbol)"
proof (cases s)
  case Nil
  then show ?thesis by (simp add: SymbolicVar_def)
next
  case (Cons c cs)
  then show ?thesis
    by (cases cs) (auto simp: SymbolicVar_def Node_init_def Node_def)
qed

section \<open>Construction of symbols\<close>

text \<open>
  Claim C6. For every string \<open>s\<close>, \<open>SymbolicVar(s)\<close> succeeds if and only if \<open>s\<close> is one
  code point that is an ASCII letter (\<open>A\<close>-\<open>Z\<close> are 65-90, \<open>a\<close>-\<open>z\<close> are 97-122); the
  result then renders as exactly \<open>s\<close>; and a string whose length is not 1, or that
  contains a code point that is no letter, fails with the \<open>ValueError\<close> whose message is
  "Symbol name must be an upper or lower-case string of length 1.".
\<close>

theorem SymbolicVar_construct:
  "((\<exists>e. SymbolicVar (PyStr s) = Inr e) \<longleftrightarrow>
      (\<exists>c. s = [c] \<and> ((65 \<le> c \<and> c \<le> 90) \<or> (97 \<le> c \<and> c \<le> 122))))
   \<and> (\<forall>e. SymbolicVar (PyStr s) = Inr e \<longrightarrow> py_str e = Some s)
   \<and> (length s \<noteq> 1 \<or> (\<exists>c \<in> set s. \<not> ((65 \<le> c \<and> c \<le> 90) \<or> (97 \<le> c \<and> c \<le> 122))) \<longrightarrow>
        SymbolicVar (PyStr s) =
          Inl (ValueError (lit ''Symbol name must be an upper or lower-case string of length 1.'')))"
proof (intro conjI)
  show "(\<exists>e. SymbolicVar (PyStr s) = Inr e) \<longleftrightarrow>
      (\<exists>c. s = [c] \<and> ((65 \<le> c \<and> c \<le> 90) \<or> (97 \<le> c \<and> c \<le> 122)))"
    by (cases s) (auto simp: SymbolicVar_PyStr split: if_splits)
  show "\<forall>e. SymbolicVar (PyStr s) = Inr e \<longrightarrow> py_str e = Some s"
    by (auto simp: SymbolicVar_PyStr split: if_splits)
  show "length s \<noteq> 1 \<or> (\<exists>c \<in> set s. \<not> ((65 \<le> c \<and> c \<le> 90) \<or> (97 \<le> c \<and> c \<le> 122))) \<longrightarrow>
        SymbolicVar (PyStr s) =
          Inl (ValueError (lit ''Symbol name must be an upper or lower-case string of length 1.''))"
    unfolding InvalidSymbol_def [symmetric]
    by (cases s) (auto simp: SymbolicVar_PyStr split: if_splits)
qed

theorem SymbolicVar_construct_witness:
  "SymbolicVar (PyStr (lit ''x'')) =
     Inr (PyObject SymbolicVar_cls (PyObject Node_cls (PyStr (lit ''x'')) PyNone PyNone) PyNone PyNone)
   \<and> py_str (PyObject SymbolicVar_cls (PyObject Node_cls (PyStr (lit ''x'')) PyNone PyNone) PyNone PyNone)
       = Some (lit ''x'')
   \<and> SymbolicVar (PyStr (lit ''xy'')) =
       Inl (ValueError (lit ''Symbol name must be an upper or lower-case string of length 1.''))
   \<and> SymbolicVar (PyStr (lit ''7'')) =
       Inl (ValueError (lit ''Symbol name must be an upper or lower-case string of length 1.''))"
  using SymbolicVar_construct [of "lit ''x''"] SymbolicVar_construct [of "lit ''xy''"]
    SymbolicVar_construct [of "lit ''7''"]
  by (simp add: lit_def SymbolicVar_PyStr)

text \<open>
  Claim C9. \<open>len(name)\<close> is the first test, so an argument without a length (an
  \<open>int\<close>, for one) fails with the \<open>TypeError\<close> of \<open>len\<close>, not with the \<open>ValueError\<close>
  of the constructor; an argument of length 1 that is no string (a list of one element)
  fails with that \<open>ValueError\<close>.
\<close>

theorem SymbolicVar_non_string:
  "SymbolicVar (PyInt n) = Inl (TypeError (lit ''object of type 'int' has no len()''))
   \<and> (\<forall>x. py_len x = Inl e \<longrightarrow> SymbolicVar x = Inl e \<and> (\<exists>m. e = TypeError m))
   \<and> SymbolicVar (PyList [x]) =
       Inl (ValueError (lit ''Symbol name must be an upper or lower-case string of length 1.''))"
proof (intro conjI allI impI)
  show "SymbolicVar (PyInt n) = Inl (TypeError (lit ''object of type 'int' has no len()''))"
    by (simp add: SymbolicVar_def lit_def)
  show "SymbolicVar (PyList [x]) =
       Inl (ValueError (lit ''Symbol name must be an upper or lower-case string of length 1.''))"
    by (simp add: SymbolicVar_def InvalidSymbol_def)
next
  fix y assume "py_len y = Inl e"
  then show "SymbolicVar y = Inl e" by (simp add: SymbolicVar_def)
next
  fix y assume "py_len y = Inl e"
  then show "\<exists>m. e = TypeError m" by (cases y) auto
qed

theorem SymbolicVar_non_string_witness:
  "py_len PyNone = Inl (TypeError (lit ''object of type 'NoneType' has no len()''))
   \<and> SymbolicVar PyNone = Inl (TypeError (lit ''object of type 'NoneType' has no len()''))
   \<and> SymbolicVar (PyInt 5) = Inl (TypeError (lit ''object of type 'int' has no len()''))
   \<and> SymbolicVar (PyList [PyStr (lit ''a'')]) =
       Inl (ValueError (lit ''Symbol name must be an upper or lower-case string of length 1.''))"
proof -
  have len: "py_len PyNone = Inl (TypeError (lit ''object of type 'NoneType' has no len()''))"
    by (simp add: lit_def)
  from SymbolicVar_non_string
    [of 5 "TypeError (lit ''object of type 'NoneType' has no len()'')" "PyStr (lit ''a'')"] len
  show ?thesis by blast
qed

section \<open>Construction of constants\<close>

text \<open>
  Claim C7. For every integer \<open>n \<ge> 0\<close>, \<open>SymbolicNum(n)\<close> succeeds: it returns the
  \<open>SymbolicNum\<close> leaf that holds \<open>n\<close>, and that leaf renders as the decimal digits
  of \<open>n\<close>: a non-empty string of the characters \<open>0\<close>-\<open>9\<close> (48-57) that denotes
  \<open>n\<close> and starts with \<open>0\<close> only when it is the string \<open>0\<close> of \<open>n = 0\<close>. For
  every \<open>n < 0\<close> it fails with the \<open>ValueError\<close> whose message is "Constant must be
  a non-negative integer.".
\<close>

theorem SymbolicNum_construct:
  "(0 \<le> n \<longrightarrow>
      SymbolicNum (PyInt n) =
        Inr (PyObject SymbolicNum_cls (PyObject Node_cls (PyInt n) PyNone PyNone) PyNone PyNone)
      \<and> (\<exists>ds. py_str (PyObject SymbolicNum_cls (PyObject Node_cls (PyInt n) PyNone PyNone) PyNone PyNone)
                 = Some ds
            \<and> ds \<noteq> [] \<and> set ds \<subseteq> {48..57} \<and> (hd ds = 48 \<longrightarrow> n = 0 \<and> ds = [48])
            \<and> int (decimal_value ds) = n))
   \<and> (n < 0 \<longrightarrow>
        SymbolicNum (PyInt n) = Inl (ValueError (lit ''Constant must be a non-negative integer.'')))"
proof (intro conjI impI)
  assume n: "0 \<le> n"
  then show "SymbolicNum (PyInt n) =
        Inr (PyObject SymbolicNum_cls (PyObject Node_cls (PyInt n) PyNone PyNone) PyNone PyNone)"
    by (simp add: SymbolicNum_def Node_init_def Node_def)
next
  assume n: "0 \<le> n"
  let ?e = "PyObject SymbolicNum_cls (PyObject Node_cls (PyInt n) PyNone PyNone) PyNone PyNone"
  have "py_str ?e = Some (nat_str (nat n))"
    using n by (simp add: int_str_def)
  moreover have "hd (nat_str (nat n)) = 48 \<longrightarrow> n = 0 \<and> nat_str (nat n) = [48]"
    using n nat_str_leading [of "nat n"] nat_str_zero [of "nat n"] by auto
  moreover have "int (decimal_value (nat_str (nat n))) = n"
    using n by (simp add: decimal_value_nat_str)
  ultimately show "\<exists>ds. py_str ?e = Some ds
            \<and> ds \<noteq> [] \<and> set ds \<subseteq> {48..57} \<and> (hd ds = 48 \<longrightarrow> n = 0 \<and> ds = [48])
            \<and> int (decimal_value ds) = n"
    using nat_str_not_Nil [of "nat n"] nat_str_digits [of "nat n"] by blast
next
  assume "n < 0"
  then show "SymbolicNum (PyInt n) = Inl (ValueError (lit ''Constant must be a non-negative integer.''))"
    by (simp add: SymbolicNum_def InvalidConstant_def)
qed

theorem SymbolicNum_construct_witness:
  "SymbolicNum (PyInt 120) =
     Inr (PyObject SymbolicNum_cls (PyObject Node_cls (PyInt 120) PyNone PyNone) PyNone PyNone)
   \<and> py_str (PyObject SymbolicNum_cls (PyObject Node_cls (PyInt 120) PyNone PyNone) PyNone PyNone)
       = Some (lit ''120'')
   \<and> int (decimal_value (lit ''120'')) = 120
   \<and> SymbolicNum (PyInt (- 1)) = Inl (ValueError (lit ''Constant must be a non-negative integer.''))"
proof -
  have r: "py_str (PyObject SymbolicNum_cls (PyObject Node_cls (PyInt 120) PyNone PyNone) PyNone PyNone)
       = Some (lit ''120'')"
    by (simp add: int_str_def nat_str.simps lit_def)
  from SymbolicNum_construct [of 120] SymbolicNum_construct [of "- 1"] r
  show ?thesis by auto
qed

section \<open>Facts about the constructors and about rendering\<close>

lemma SymbolicVar_Inr:
  "SymbolicVar name = Inr e \<Longrightarrow>
     \<exists>c. name = PyStr [c] \<and> ((97 \<le> c \<and> c \<le> 122) \<or> (65 \<le> c \<and> c \<le> 90))
       \<and> e = PyObject SymbolicVar_cls (PyObject Node_cls name PyNone PyNone) PyNone PyNone"
proof (cases name)
  case (PyStr s)
  assume "SymbolicVar name = Inr e"
  with PyStr show ?thesis
    by (cases s) (auto simp: SymbolicVar_PyStr split: if_splits)
next
  case (PyList xs)
  assume "SymbolicVar name = Inr e"
  with PyList show ?thesis by (simp add: SymbolicVar_def InvalidSymbol_def split: if_splits)
qed (simp_all add: SymbolicVar_def)

lemma SymbolicNum_Inr:
  "SymbolicNum v = Inr e \<Longrightarrow>
     (\<exists>i. int_of v = Some i \<and> 0 \<le> i)
       \<and> e = PyObject SymbolicNum_cls (PyObject Node_cls v PyNone PyNone) PyNone PyNone"
  by (auto simp: SymbolicNum_def Node_init_def Node_def split: option.splits if_splits)

lemma CompoundExpression_Inr:
  "isinstance_Expression l \<Longrightarrow> isinstance_Expression r \<Longrightarrow>
     CompoundExpression op l r = Inr (PyObject CompoundExpression_cls op l r)"
  by (simp add: CompoundExpression_def Node_init_def)

lemma CompoundExpression_Inr_iff:
  "CompoundExpression op l r = Inr e \<longleftrightarrow>
     isinstance_Expression l \<and> isinstance_Expression r \<and> e = PyObject CompoundExpression_cls op l r"
  by (auto simp: CompoundExpression_def Node_init_def)

lemma isinstance_Expression_not_None: "isinstance_Expression e \<Longrightarrow> e \<noteq> PyNone"
  by auto

lemma py_str_compound:
  assumes "isinstance_Expression l" "isinstance_Expression r"
    and "py_str l = Some a" "py_str r = Some b" "a \<noteq> [] \<or> b \<noteq> []"
  shows "py_str (PyObject CompoundExpression_cls (PyOperator op) l r) =
           Some (lit ''('' @ a @ lit '' '' @ Operator_str op @ lit '' '' @ b @ lit '')'')"
  using assms by (auto dest: isinstance_Expression_not_None)

lemma int_of_str:
  "int_of v = Some i \<Longrightarrow> 0 \<le> i \<Longrightarrow> \<exists>s. py_str v = Some s \<and> s \<noteq> [] \<and> 40 \<notin> set s \<and> 41 \<notin> set s"
proof (cases v)
  case (PyInt n)
  assume "int_of v = Some i" "0 \<le> i"
  with PyInt have "py_str v = Some (nat_str (nat n))" by (simp add: int_str_def)
  then show ?thesis using nat_str_not_Nil [of "nat n"] nat_str_digits [of "nat n"] by auto
next
  case (PyBool b)
  then show ?thesis by (simp add: lit_def)
qed simp_all

text \<open>
  \<open>built\<close> holds of exactly the values that the constructors return on built
  children.
\<close>

lemma built_var: "SymbolicVar name = Inr e \<Longrightarrow> built e"
  by (frule SymbolicVar_Inr) auto

lemma built_num: "SymbolicNum val = Inr e \<Longrightarrow> built e"
  by (frule SymbolicNum_Inr) auto

lemma built_compound:
  "built l \<Longrightarrow> built r \<Longrightarrow> CompoundExpression (PyOperator op) l r = Inr e \<Longrightarrow> built e"
  by (auto simp: CompoundExpression_Inr_iff)

lemma built_cases:
  "built e \<Longrightarrow>
     (\<exists>name. SymbolicVar name = Inr e) \<or> (\<exists>val. SymbolicNum val = Inr e)
     \<or> (\<exists>op l r. built l \<and> built r \<and> CompoundExpression (PyOperator op) l r = Inr e)"
  by (cases e) (auto split: if_splits pyval.splits)

lemma built_isinstance: "built e \<Longrightarrow> isinstance_Expression e"
  by (cases e) (auto split: if_splits)

lemma built_str: "built e \<Longrightarrow> \<exists>s. py_str e = Some s \<and> s \<noteq> []"
proof (induction e rule: built.induct)
  case (1 c v l r)
  from built_cases [OF "1.prems"] show ?case
  proof (elim disjE exE conjE)
    fix name assume "SymbolicVar name = Inr (PyObject c v l r)"
    then show ?thesis by (auto dest!: SymbolicVar_Inr)
  next
    fix val assume "SymbolicNum val = Inr (PyObject c v l r)"
    from SymbolicNum_Inr [OF this] obtain i where
      i: "int_of val = Some i" "0 \<le> i"
      and e: "PyObject c v l r = PyObject SymbolicNum_cls (PyObject Node_cls val PyNone PyNone) PyNone PyNone"
      by blast
    from int_of_str [OF i] e show ?thesis by auto
  next
    fix op l' r'
    assume b: "built l'" "built r'"
      and "CompoundExpression (PyOperator op) l' r' = Inr (PyObject c v l r)"
    then have e: "c = CompoundExpression_cls" "v = PyOperator op" "l' = l" "r' = r"
      and lr: "isinstance_Expression l" "isinstance_Expression r"
      by (simp_all add: CompoundExpression_Inr_iff)
    from "1.IH" [of op] e b obtain a b where
      ab: "py_str l = Some a" "a \<noteq> []" "py_str r = Some b"
      by auto
    from py_str_compound [OF lr ab(1) ab(3), of op] ab(2) e show ?thesis by simp
  qed
qed simp_all

section \<open>Rendering of compound expressions\<close>

text \<open>
  Claim C4. For all expressions \<open>A\<close> and \<open>B\<close> and every operator \<open>op\<close>, the
  \<open>CompoundExpression\<close> of \<open>op\<close>, \<open>A\<close> and \<open>B\<close> renders as
  \<open>"(" + render(A) + " " + glyph(op) + " " + render(B) + ")"\<close>, where the glyph of
  \<open>add\<close> is \<open>+\<close>, of \<open>sub\<close> is \<open>-\<close>, of \<open>mul\<close> is U+00D7 and of \<open>div\<close> is U+00F7;
  a leaf renders without parentheses (code points 40 and 41).
\<close>

theorem render_compound:
  "(built A \<and> built B \<longrightarrow>
      (\<exists>e a b. CompoundExpression (PyOperator op) A B = Inr e
         \<and> py_str A = Some a \<and> py_str B = Some b
         \<and> py_str e = Some (lit ''('' @ a @ lit '' '' @ Operator_str op @ lit '' '' @ b @ lit '')'')))
   \<and> Operator_str Operator_add = lit ''+'' \<and> Operator_str Operator_sub = lit ''-''
   \<and> Operator_str Operator_mul = [0xD7] \<and> Operator_str Operator_div = [0xF7]
   \<and> (SymbolicVar x = Inr leaf \<or> SymbolicNum x = Inr leaf \<longrightarrow>
        (\<exists>s. py_str leaf = Some s \<and> 40 \<notin> set s \<and> 41 \<notin> set s))"
proof (intro conjI impI)
  assume "built A \<and> built B"
  then have A: "built A" and B: "built B" by simp_all
  from built_str [OF A] obtain a where a: "py_str A = Some a" "a \<noteq> []" by blast
  from built_str [OF B] obtain b where b: "py_str B = Some b" by blast
  have "CompoundExpression (PyOperator op) A B = Inr (PyObject CompoundExpression_cls (PyOperator op) A B)"
    using A B by (simp add: CompoundExpression_Inr built_isinstance)
  moreover have "py_str (PyObject CompoundExpression_cls (PyOperator op) A B) =
           Some (lit ''('' @ a @ lit '' '' @ Operator_str op @ lit '' '' @ b @ lit '')'')"
    using py_str_compound [OF built_isinstance [OF A] built_isinstance [OF B] a(1) b] a(2) by simp
  ultimately show "\<exists>e a b. CompoundExpression (PyOperator op) A B = Inr e
         \<and> py_str A = Some a \<and> py_str B = Some b
         \<and> py_str e = Some (lit ''('' @ a @ lit '' '' @ Operator_str op @ lit '' '' @ b @ lit '')'')"
    using a b by blast
next
  assume "SymbolicVar x = Inr leaf \<or> SymbolicNum x = Inr leaf"
  then show "\<exists>s. py_str leaf = Some s \<and> 40 \<notin> set s \<and> 41 \<notin> set s"
  proof
    assume "SymbolicVar x = Inr leaf"
    from SymbolicVar_Inr [OF this] show ?thesis by auto
  next
    assume "SymbolicNum x = Inr leaf"
    from SymbolicNum_Inr [OF this] obtain i where
      i: "int_of x = Some i" "0 \<le> i"
      and e: "leaf = PyObject SymbolicNum_cls (PyObject Node_cls x PyNone PyNone) PyNone PyNone"
      by blast
    from int_of_str [OF i] e show ?thesis by auto
  qed
qed (simp_all add: Operator_str_def lit_def)

theorem render_compound_witness:
  "CompoundExpression (PyOperator Operator_mul)
      (PyObject SymbolicVar_cls (PyObject Node_cls (PyStr (lit ''a'')) PyNone PyNone) PyNone PyNone)
      (PyObject SymbolicNum_cls (PyObject Node_cls (PyInt 10) PyNone PyNone) PyNone PyNone)
    = Inr (PyObject CompoundExpression_cls (PyOperator Operator_mul)
        (PyObject SymbolicVar_cls (PyObject Node_cls (PyStr (lit ''a'')) PyNone PyNone) PyNone PyNone)
        (PyObject SymbolicNum_cls (PyObject Node_cls (PyInt 10) PyNone PyNone) PyNone PyNone))
   \<and> py_str (PyObject CompoundExpression_cls (PyOperator Operator_mul)
        (PyObject SymbolicVar_cls (PyObject Node_cls (PyStr (lit ''a'')) PyNone PyNone) PyNone PyNone)
        (PyObject SymbolicNum_cls (PyObject Node_cls (PyInt 10) PyNone PyNone) PyNone PyNone))
      = Some (lit ''(a '' @ [0xD7] @ lit '' 10)'')
   \<and> py_str (PyObject SymbolicVar_cls (PyObject Node_cls (PyStr (lit ''a'')) PyNone PyNone) PyNone PyNone)
      = Some (lit ''a'')"
proof -
  let ?a = "PyObject SymbolicVar_cls (PyObject Node_cls (PyStr (lit ''a'')) PyNone PyNone) PyNone PyNone"
  let ?n = "PyObject SymbolicNum_cls (PyObject Node_cls (PyInt 10) PyNone PyNone) PyNone PyNone"
  have va: "SymbolicVar (PyStr (lit ''a'')) = Inr ?a"
    by (simp add: SymbolicVar_PyStr lit_def)
  have vn: "SymbolicNum (PyInt 10) = Inr ?n"
    by (simp add: SymbolicNum_def Node_init_def Node_def)
  have "built ?a \<and> built ?n"
    using built_var [OF va] built_num [OF vn] by simp
  moreover have "SymbolicVar (PyStr (lit ''a'')) = Inr ?a \<or> SymbolicNum (PyStr (lit ''a'')) = Inr ?a"
    using va by simp
  ultimately show ?thesis
    using render_compound [of ?a ?n Operator_mul "PyStr (lit ''a'')" ?a]
    by (simp add: CompoundExpression_def Node_init_def int_str_def nat_str.simps lit_def Operator_str_def)
qed

section \<open>What a leaf stores\<close>

text \<open>
  Both leaf constructors call \<open>super().__init__(Node(...))\<close>: the attribute \<open>val\<close> of
  a leaf is a fresh \<open>Node\<close> that holds the raw value, not the raw value. Here is the
  attribute of \<open>SymbolicVar("a")\<close> and of \<open>SymbolicNum(5)\<close>.
\<close>

theorem leaf_value_counterexample:
  "SymbolicVar (PyStr (lit ''a'')) =
     Inr (PyObject SymbolicVar_cls (PyObject Node_cls (PyStr (lit ''a'')) PyNone PyNone) PyNone PyNone)
   \<and> attr_val (PyObject SymbolicVar_cls (PyObject Node_cls (PyStr (lit ''a'')) PyNone PyNone) PyNone PyNone)
       \<noteq> Inr (PyStr (lit ''a''))
   \<and> SymbolicNum (PyInt 5) =
     Inr (PyObject SymbolicNum_cls (PyObject Node_cls (PyInt 5) PyNone PyNone) PyNone PyNone)
   \<and> attr_val (PyObject SymbolicNum_cls (PyObject Node_cls (PyInt 5) PyNone PyNone) PyNone PyNone)
       \<noteq> Inr (PyInt 5)"
  by (simp add: SymbolicVar_PyStr SymbolicNum_def Node_init_def Node_def lit_def)

text \<open>
  Claim C3, as the code has it. For every leaf that is constructed, the attribute
  \<open>val\<close> of its root is an object of class \<open>Node\<close> without children whose own
  \<open>val\<close> is the raw value (the one-character string given to \<open>SymbolicVar\<close>, the
  non-negative \<open>int\<close> given to \<open>SymbolicNum\<close>), and both child slots of the leaf are
  \<open>None\<close>.
\<close>

theorem leaf_value:
  "(SymbolicVar x = Inr e \<longrightarrow>
      (\<exists>c. x = PyStr [c]) \<and> attr_val e = Inr (PyObject Node_cls x PyNone PyNone)
      \<and> attr_left e = Inr PyNone \<and> attr_right e = Inr PyNone)
   \<and> (SymbolicNum x = Inr e \<longrightarrow>
      (\<exists>i. int_of x = Some i \<and> 0 \<le> i) \<and> attr_val e = Inr (PyObject Node_cls x PyNone PyNone)
      \<and> attr_left e = Inr PyNone \<and> attr_right e = Inr PyNone)"
  by (auto dest!: SymbolicVar_Inr SymbolicNum_Inr)

theorem leaf_value_witness:
  "SymbolicVar (PyStr (lit ''a'')) =
     Inr (PyObject SymbolicVar_cls (PyObject Node_cls (PyStr (lit ''a'')) PyNone PyNone) PyNone PyNone)
   \<and> attr_val (PyObject SymbolicVar_cls (PyObject Node_cls (PyStr (lit ''a'')) PyNone PyNone) PyNone PyNone)
       = Inr (PyObject Node_cls (PyStr (lit ''a'')) PyNone PyNone)
   \<and> SymbolicNum (PyInt 5) =
     Inr (PyObject SymbolicNum_cls (PyObject Node_cls (PyInt 5) PyNone PyNone) PyNone PyNone)
   \<and> attr_val (PyObject SymbolicNum_cls (PyObject Node_cls (PyInt 5) PyNone PyNone) PyNone PyNone)
       = Inr (PyObject Node_cls (PyInt 5) PyNone PyNone)"
proof -
  have va: "SymbolicVar (PyStr (lit ''a'')) =
     Inr (PyObject SymbolicVar_cls (PyObject Node_cls (PyStr (lit ''a'')) PyNone PyNone) PyNone PyNone)"
    by (simp add: SymbolicVar_PyStr lit_def)
  have vn: "SymbolicNum (PyInt 5) =
     Inr (PyObject SymbolicNum_cls (PyObject Node_cls (PyInt 5) PyNone PyNone) PyNone PyNone)"
    by (simp add: SymbolicNum_def Node_init_def Node_def)
  from va vn
    leaf_value [of "PyStr (lit ''a'')"
      "PyObject SymbolicVar_cls (PyObject Node_cls (PyStr (lit ''a'')) PyNone PyNone) PyNone PyNone"]
    leaf_value [of "PyInt 5"
      "PyObject SymbolicNum_cls (PyObject Node_cls (PyInt 5) PyNone PyNone) PyNone PyNone"]
  show ?thesis by blast
qed

section \<open>The binary combinators\<close>

lemma call_op_inherited:
  "isinstance_Expression self \<Longrightarrow> \<not> isinstance_SymbolicNum self \<Longrightarrow>
     call_op self other op right = Expression_op self other op right"
  by (cases self) simp_all

lemma call_op_SymbolicNum:
  "isinstance_SymbolicNum self \<Longrightarrow> call_op self other op right = Inr PyNone"
  by (cases self) (simp_all add: SymbolicNum_op_def)

lemma combinator_call_op: "combinator op self other = call_op self other (PyOperator op) False"
  by (cases op)
     (simp_all add: Expression_add_def Expression_sub_def Expression_mul_def Expression_truediv_def)


lemma isinstance_Expression_not_int: "isinstance_Expression x \<Longrightarrow> \<not> isinstance_int x"
  by (cases x) (simp_all add: isinstance_int_def)

lemma Expression_op_Expression:
  "isinstance_Expression self \<Longrightarrow> isinstance_Expression other \<Longrightarrow>
     Expression_op self other op right =
       Inr (if right then PyObject CompoundExpression_cls op other self
            else PyObject CompoundExpression_cls op self other)"
  by (simp add: Expression_op_def isinstance_Expression_not_int CompoundExpression_Inr)

lemma SymbolicNum_isinstance:
  "SymbolicNum x = Inr num \<Longrightarrow> isinstance_int x \<and> isinstance_Expression num"
  by (auto dest!: SymbolicNum_Inr simp: isinstance_int_def)

lemma Expression_op_int:
  "isinstance_Expression self \<Longrightarrow> SymbolicNum other = Inr num \<Longrightarrow>
     Expression_op self other op right =
       Inr (if right then PyObject CompoundExpression_cls op num self
            else PyObject CompoundExpression_cls op self num)"
  using SymbolicNum_isinstance [of other num]
  by (simp add: Expression_op_def CompoundExpression_Inr)

lemma Expression_op_negative:
  "int_of other = Some i \<Longrightarrow> i < 0 \<Longrightarrow> Expression_op self other op right = Inl InvalidConstant"
  by (simp add: Expression_op_def isinstance_int_def SymbolicNum_def)



text \<open>
  Two calls where a combinator does not return a \<open>CompoundExpression\<close>:
  \<open>SymbolicVar("a") + (-1)\<close> raises the \<open>ValueError\<close> of \<open>SymbolicNum(-1)\<close>, and
  \<open>SymbolicNum(5) + SymbolicVar("a")\<close> returns \<open>None\<close>, since \<open>SymbolicNum._op\<close>
  overrides \<open>Expression._op\<close> with \<open>pass\<close>.
\<close>

theorem combinator_counterexample:
  "combinator Operator_add
      (PyObject SymbolicVar_cls (PyObject Node_cls (PyStr (lit ''a'')) PyNone PyNone) PyNone PyNone)
      (PyInt (- 1))
     = Inl (ValueError (lit ''Constant must be a non-negative integer.''))
   \<and> SymbolicNum (PyInt 5) =
       Inr (PyObject SymbolicNum_cls (PyObject Node_cls (PyInt 5) PyNone PyNone) PyNone PyNone)
   \<and> combinator Operator_add
      (PyObject SymbolicNum_cls (PyObject Node_cls (PyInt 5) PyNone PyNone) PyNone PyNone)
      (PyObject SymbolicVar_cls (PyObject Node_cls (PyStr (lit ''a'')) PyNone PyNone) PyNone PyNone)
     = Inr PyNone"
  by (simp add: Expression_add_def Expression_op_def SymbolicNum_op_def isinstance_int_def
      SymbolicNum_def InvalidConstant_def Node_init_def Node_def)

text \<open>
  Claim C1, as the code has it. On a receiver that is an \<open>Expression\<close> and not a
  \<open>SymbolicNum\<close> (a \<open>SymbolicVar\<close> or a \<open>CompoundExpression\<close>), each of the four
  combinators returns the \<open>CompoundExpression\<close> of its operator with the receiver on
  the left and, on the right, the other operand when it is an \<open>Expression\<close>, or
  \<open>SymbolicNum(n)\<close> when it is a plain integer \<open>n \<ge> 0\<close> (so \<open>e + n\<close> is the tree
  of \<open>e + SymbolicNum(n)\<close>); on a plain integer \<open>n < 0\<close> it raises the
  \<open>ValueError\<close> of \<open>SymbolicNum\<close>.
\<close>

theorem combinator_result:
  assumes "isinstance_Expression self" and "\<not> isinstance_SymbolicNum self"
  shows "(isinstance_Expression other \<longrightarrow>
            combinator op self other = Inr (PyObject CompoundExpression_cls (PyOperator op) self other))
       \<and> (0 \<le> n \<longrightarrow>
            (\<exists>num. SymbolicNum (PyInt n) = Inr num
               \<and> combinator op self (PyInt n) =
                   Inr (PyObject CompoundExpression_cls (PyOperator op) self num)
               \<and> combinator op self (PyInt n) = combinator op self num))
       \<and> (n < 0 \<longrightarrow>
            combinator op self (PyInt n) =
              Inl (ValueError (lit ''Constant must be a non-negative integer.'')))"
proof (intro conjI impI)
  assume "isinstance_Expression other"
  with assms show "combinator op self other = Inr (PyObject CompoundExpression_cls (PyOperator op) self other)"
    by (simp add: combinator_call_op call_op_inherited Expression_op_Expression)
next
  assume n: "0 \<le> n"
  let ?num = "PyObject SymbolicNum_cls (PyObject Node_cls (PyInt n) PyNone PyNone) PyNone PyNone"
  have num: "SymbolicNum (PyInt n) = Inr ?num"
    using n by (simp add: SymbolicNum_def Node_init_def Node_def)
  have 1: "combinator op self (PyInt n) = Inr (PyObject CompoundExpression_cls (PyOperator op) self ?num)"
    using assms Expression_op_int [OF assms(1) num]
    by (simp add: combinator_call_op call_op_inherited)
  have 2: "combinator op self ?num = Inr (PyObject CompoundExpression_cls (PyOperator op) self ?num)"
    using assms by (simp add: combinator_call_op call_op_inherited Expression_op_Expression)
  from num 1 2 show "\<exists>num. SymbolicNum (PyInt n) = Inr num
               \<and> combinator op self (PyInt n) =
                   Inr (PyObject CompoundExpression_cls (PyOperator op) self num)
               \<and> combinator op self (PyInt n) = combinator op self num"
    by simp
next
  assume "n < 0"
  with assms show "combinator op self (PyInt n) =
              Inl (ValueError (lit ''Constant must be a non-negative integer.''))"
    using Expression_op_negative [of "PyInt n" n]
    by (simp add: combinator_call_op call_op_inherited InvalidConstant_def)
qed

theorem combinator_result_witness:
  "combinator Operator_sub
      (PyObject SymbolicVar_cls (PyObject Node_cls (PyStr (lit ''a'')) PyNone PyNone) PyNone PyNone)
      (PyObject SymbolicVar_cls (PyObject Node_cls (PyStr (lit ''b'')) PyNone PyNone) PyNone PyNone)
     = Inr (PyObject CompoundExpression_cls (PyOperator Operator_sub)
        (PyObject SymbolicVar_cls (PyObject Node_cls (PyStr (lit ''a'')) PyNone PyNone) PyNone PyNone)
        (PyObject SymbolicVar_cls (PyObject Node_cls (PyStr (lit ''b'')) PyNone PyNone) PyNone PyNone))
   \<and> combinator Operator_sub
      (PyObject SymbolicVar_cls (PyObject Node_cls (PyStr (lit ''a'')) PyNone PyNone) PyNone PyNone)
      (PyInt 5)
     = Inr (PyObject CompoundExpression_cls (PyOperator Operator_sub)
        (PyObject SymbolicVar_cls (PyObject Node_cls (PyStr (lit ''a'')) PyNone PyNone) PyNone PyNone)
        (PyObject SymbolicNum_cls (PyObject Node_cls (PyInt 5) PyNone PyNone) PyNone PyNone))
   \<and> combinator Operator_sub
      (PyObject SymbolicVar_cls (PyObject Node_cls (PyStr (lit ''a'')) PyNone PyNone) PyNone PyNone)
      (PyInt (- 5))
     = Inl (ValueError (lit ''Constant must be a non-negative integer.''))"
proof -
  let ?a = "PyObject SymbolicVar_cls (PyObject Node_cls (PyStr (lit ''a'')) PyNone PyNone) PyNone PyNone"
  let ?b = "PyObject SymbolicVar_cls (PyObject Node_cls (PyStr (lit ''b'')) PyNone PyNone) PyNone PyNone"
  have a: "isinstance_Expression ?a" "\<not> isinstance_SymbolicNum ?a" by simp_all
  have b: "isinstance_Expression ?b" by simp
  from combinator_result [OF a, of ?b Operator_sub 5] combinator_result [OF a, of ?b Operator_sub "- 5"] b
  show ?thesis by (simp add: SymbolicNum_def Node_init_def Node_def)
qed






section \<open>commute\<close>

text \<open>
  Claim C5. On every \<open>CompoundExpression\<close>, \<open>commute()\<close> swaps the two children, and
  a second \<open>commute()\<close> restores the original children in their order, hence the
  original object and its render string.
\<close>

theorem commute_involution:
  "isinstance_CompoundExpression e \<Longrightarrow>
     \<exists>e' e''. commute e = Inr (PyNone, e') \<and> commute e' = Inr (PyNone, e'')
        \<and> attr_left e' = attr_right e \<and> attr_right e' = attr_left e
        \<and> attr_left e'' = attr_left e \<and> attr_right e'' = attr_right e
        \<and> py_str e'' = py_str e \<and> e'' = e"
  by (cases e) simp_all

theorem commute_involution_witness:
  "commute (PyObject CompoundExpression_cls (PyOperator Operator_add)
      (PyObject SymbolicVar_cls (PyObject Node_cls (PyStr (lit ''a'')) PyNone PyNone) PyNone PyNone)
      (PyObject SymbolicNum_cls (PyObject Node_cls (PyInt 5) PyNone PyNone) PyNone PyNone))
   = Inr (PyNone, PyObject CompoundExpression_cls (PyOperator Operator_add)
      (PyObject SymbolicNum_cls (PyObject Node_cls (PyInt 5) PyNone PyNone) PyNone PyNone)
      (PyObject SymbolicVar_cls (PyObject Node_cls (PyStr (lit ''a'')) PyNone PyNone) PyNone PyNone))
   \<and> commute (PyObject CompoundExpression_cls (PyOperator Operator_add)
      (PyObject SymbolicNum_cls (PyObject Node_cls (PyInt 5) PyNone PyNone) PyNone PyNone)
      (PyObject SymbolicVar_cls (PyObject Node_cls (PyStr (lit ''a'')) PyNone PyNone) PyNone PyNone))
   = Inr (PyNone, PyObject CompoundExpression_cls (PyOperator Operator_add)
      (PyObject SymbolicVar_cls (PyObject Node_cls (PyStr (lit ''a'')) PyNone PyNone) PyNone PyNone)
      (PyObject SymbolicNum_cls (PyObject Node_cls (PyInt 5) PyNone PyNone) PyNone PyNone))"
proof -
  let ?e = "PyObject CompoundExpression_cls (PyOperator Operator_add)
      (PyObject SymbolicVar_cls (PyObject Node_cls (PyStr (lit ''a'')) PyNone PyNone) PyNone PyNone)
      (PyObject SymbolicNum_cls (PyObject Node_cls (PyInt 5) PyNone PyNone) PyNone PyNone)"
  have "isinstance_CompoundExpression ?e" by simp
  from commute_involution [OF this] show ?thesis by simp
qed

section \<open>The unimplemented operations\<close>

text \<open>
  The bodies of \<open>__eq__\<close>, \<open>assoc_right\<close>, \<open>assoc_left\<close> and \<open>specialize\<close> are
  \<open>pass\<close>. No call of them fails: \<open>assoc_right\<close> on \<open>a + b\<close> returns \<open>None\<close> and
  leaves the tree as it was, \<open>specialize\<close> returns \<open>None\<close>, and \<open>a == a\<close> is
  \<open>None\<close>, which is not \<open>NotImplemented\<close> either.
\<close>

theorem stubs_counterexample:
  "assoc_right (PyObject CompoundExpression_cls (PyOperator Operator_add)
      (PyObject SymbolicVar_cls (PyObject Node_cls (PyStr (lit ''a'')) PyNone PyNone) PyNone PyNone)
      (PyObject SymbolicVar_cls (PyObject Node_cls (PyStr (lit ''b'')) PyNone PyNone) PyNone PyNone))
   = (PyNone, PyObject CompoundExpression_cls (PyOperator Operator_add)
      (PyObject SymbolicVar_cls (PyObject Node_cls (PyStr (lit ''a'')) PyNone PyNone) PyNone PyNone)
      (PyObject SymbolicVar_cls (PyObject Node_cls (PyStr (lit ''b'')) PyNone PyNone) PyNone PyNone))
   \<and> specialize (PyObject SymbolicVar_cls (PyObject Node_cls (PyStr (lit ''a'')) PyNone PyNone) PyNone PyNone)
        (PyInt 3)
      = (PyNone, PyObject SymbolicVar_cls (PyObject Node_cls (PyStr (lit ''a'')) PyNone PyNone) PyNone PyNone)
   \<and> Expression_eq
        (PyObject SymbolicVar_cls (PyObject Node_cls (PyStr (lit ''a'')) PyNone PyNone) PyNone PyNone)
        (PyObject SymbolicVar_cls (PyObject Node_cls (PyStr (lit ''a'')) PyNone PyNone) PyNone PyNone)
      = PyNone
   \<and> PyNone \<noteq> PyNotImplemented"
  by (simp add: assoc_right_def specialize_def Expression_eq_def)

text \<open>
  Claim C2, as the code has it. Each unimplemented operation (equality of two
  expressions, \<open>assoc_right\<close>, \<open>assoc_left\<close>, \<open>specialize\<close>) returns \<open>None\<close>
  without raising, and leaves its receiver unchanged.
\<close>

theorem stubs_return_None:
  "Expression_eq self other = PyNone
   \<and> assoc_right self = (PyNone, self)
   \<and> assoc_left self = (PyNone, self)
   \<and> specialize self v = (PyNone, self)"
  by (simp add: Expression_eq_def assoc_right_def assoc_left_def specialize_def)

section \<open>The example of the module docstring\<close>

text \<open>
  \<open>expr = 2 * (x+1) + 5*y + z\<close> prints as the docstring says, before and after
  \<open>expr.commute()\<close>. The products have an \<open>int\<close> on the left, so they are calls of
  \<open>__rmul__\<close> on the expression at the right.
\<close>

lemma docstring_example:
  "(case SymbolicVar (PyStr (lit ''x'')) of Inl err \<Rightarrow> None | Inr x \<Rightarrow>
    case SymbolicVar (PyStr (lit ''y'')) of Inl err \<Rightarrow> None | Inr y \<Rightarrow>
    case SymbolicVar (PyStr (lit ''z'')) of Inl err \<Rightarrow> None | Inr z \<Rightarrow>
    case Expression_add x (PyInt 1) of Inl err \<Rightarrow> None | Inr x1 \<Rightarrow>
    case Expression_rmul x1 (PyInt 2) of Inl err \<Rightarrow> None | Inr t1 \<Rightarrow>
    case Expression_rmul y (PyInt 5) of Inl err \<Rightarrow> None | Inr t2 \<Rightarrow>
    case Expression_add t1 t2 of Inl err \<Rightarrow> None | Inr t3 \<Rightarrow>
    case Expression_add t3 z of Inl err \<Rightarrow> None | Inr expr \<Rightarrow>
    case commute expr of Inl err \<Rightarrow> None | Inr (none, expr') \<Rightarrow>
      Some (py_str expr, py_str expr'))
   = Some (Some (lit ''(((2 '' @ [0xD7] @ lit '' (x + 1)) + (5 '' @ [0xD7] @ lit '' y)) + z)''),
           Some (lit ''(z + ((2 '' @ [0xD7] @ lit '' (x + 1)) + (5 '' @ [0xD7] @ lit '' y)))''))"
  by (simp add: SymbolicVar_PyStr Expression_add_def Expression_rmul_def Expression_op_def
      isinstance_int_def SymbolicNum_def CompoundExpression_def Node_init_def Node_def
      int_str_def nat_str.simps Operator_str_def lit_def)

end
